theory Spec2Isabelle
  imports Main
begin

section \<open>Events and the event log\<close>

text \<open>
  \<^verbatim>\<open>type eventType int\<close> with the constants \<^verbatim>\<open>iota + 1\<close>: the four recognised
  actions are 1 to 4, and 0 is the zero value that no constant names.
\<close>

type_synonym eventType = int

definition startEvent :: eventType where "startEvent = 1"
definition runningEvent :: eventType where "runningEvent = 2"
definition stopEvent :: eventType where "stopEvent = 3"
definition dieEvent :: eventType where "dieEvent = 4"

definition eventTable :: "string \<rightharpoonup> eventType" where
  "eventTable =
     [''start'' \<mapsto> startEvent, ''running'' \<mapsto> runningEvent,
      ''stop'' \<mapsto> stopEvent, ''die'' \<mapsto> dieEvent]"

text \<open>Indexing a Go map with a key it does not hold yields the zero value of the value type.\<close>

definition eventTable_index :: "string \<Rightarrow> eventType" where
  "eventTable_index a = (case eventTable a of None \<Rightarrow> 0 | Some t \<Rightarrow> t)"

text \<open>\<^verbatim>\<open>recordedAt\<close> is a \<^verbatim>\<open>time.Time\<close>; a reading of the clock is a natural number here.\<close>

record event =
  action :: eventType
  containerID :: string
  name :: string
  recordedAt :: nat

text \<open>
  The mutex of \<^verbatim>\<open>eventLog\<close> makes \<^verbatim>\<open>push\<close> and \<^verbatim>\<open>flush\<close> atomic; the model is the
  sequence of those atomic operations, so the lock itself has no field.
\<close>

record eventLog =
  events :: "event list"

definition newEventLog :: eventLog where
  "newEventLog = \<lparr>events = []\<rparr>"

definition push :: "eventLog \<Rightarrow> event \<Rightarrow> eventLog" where
  "push el e = el\<lparr>events := events el @ [e]\<rparr>"

text \<open>\<^verbatim>\<open>flush\<close> returns a copy of the buffer and the log with its buffer set to nil.\<close>

definition flush :: "eventLog \<Rightarrow> event list \<times> eventLog" where
  "flush el = (events el, el\<lparr>events := []\<rparr>)"

text \<open>A caller of the log either pushes an event or flushes.\<close>

datatype log_call = Push event | Flush

text \<open>
  Running a sequence of calls: the results of the flushes, in the order of the calls, and
  the log afterwards.
\<close>

fun run_calls :: "log_call list \<Rightarrow> eventLog \<Rightarrow> event list list \<times> eventLog" where
  "run_calls [] el = ([], el)"
| "run_calls (Push e # cs) el = run_calls cs (push el e)"
| "run_calls (Flush # cs) el =
     (case flush el of (out, el') \<Rightarrow>
        (case run_calls cs el' of (outs, el'') \<Rightarrow> (out # outs, el'')))"

fun pushed :: "log_call list \<Rightarrow> event list" where
  "pushed [] = []"
| "pushed (Push e # cs) = e # pushed cs"
| "pushed (Flush # cs) = pushed cs"

section \<open>Coalescing\<close>

text \<open>
  \<^verbatim>\<open>applyEventFilter\<close>: the loop over the drained slice, writing each event under its
  container identifier into the map built so far.
\<close>

fun applyEventFilter_loop :: "event list \<Rightarrow> (string \<rightharpoonup> event) \<Rightarrow> (string \<rightharpoonup> event)" where
  "applyEventFilter_loop [] filteredEvents = filteredEvents"
| "applyEventFilter_loop (e # es) filteredEvents =
     applyEventFilter_loop es (filteredEvents(containerID e \<mapsto> e))"

definition applyEventFilter :: "event list \<Rightarrow> (string \<rightharpoonup> event)" where
  "applyEventFilter evs = applyEventFilter_loop evs Map.empty"

section \<open>Calls, effects and the world\<close>

text \<open>
  A Go call returns normally, returns an error value, or panics. A panic that nothing
  recovers ends the process; the code has no \<^verbatim>\<open>recover\<close>.
\<close>

datatype 'a outcome = Ok 'a | Err string | Panic string

definition index_out_of_range :: string where
  "index_out_of_range = ''runtime error: index out of range [0] with length 0''"

text \<open>What the process does to its surroundings, in the order it does it.\<close>

datatype effect =
    ReadFile
  | OpenFile
  | WriteFile string
  | ContainerList
  | ContainerInspect string
  | HttpPost
  | LogError string
  | LogPrint string

text \<open>
  The world of the process: the shared event log, the bytes of
  \<^verbatim>\<open>prometheus-local/prometheus.yaml\<close> (\<open>None\<close> when the file does not exist), the effects
  so far, and the number of clock readings taken.
\<close>

record world =
  elog :: eventLog
  state_file :: "string option"
  trace :: "effect list"
  ticks :: nat

definition emit :: "effect \<Rightarrow> world \<Rightarrow> world" where
  "emit x w = w\<lparr>trace := trace w @ [x]\<rparr>"

text \<open>\<^verbatim>\<open>fmt.Errorf("%v: %s", e, err)\<close> and the same format in \<^verbatim>\<open>logger.Errorf\<close>.\<close>

definition errorf :: "string \<Rightarrow> string \<Rightarrow> string" where
  "errorf e err = e @ '': '' @ err"

definition logErrorf :: "string \<Rightarrow> string \<Rightarrow> world \<Rightarrow> world" where
  "logErrorf e err w = emit (LogError (errorf e err)) w"

definition ErrConsumerInspectContainer :: string where
  "ErrConsumerInspectContainer = ''consumer inspecting container''"
definition ErrConsumerGetCurrentState :: string where
  "ErrConsumerGetCurrentState = ''consumer getting current state''"
definition ErrConsumerParseHostMapping :: string where
  "ErrConsumerParseHostMapping = ''consumer parsing host mapping''"
definition ErrConsumerDiffTargets :: string where
  "ErrConsumerDiffTargets = ''consumer diffing targets''"
definition ErrConsumerPublish :: string where
  "ErrConsumerPublish = ''consumer publishing scrape targets''"
definition ErrConsumerSendSignal :: string where
  "ErrConsumerSendSignal = ''consumer sending signal''"
definition ErrConsumerMakeRequest :: string where
  "ErrConsumerMakeRequest = ''consumer making request''"
definition ErrProducerReceiveEvent :: string where
  "ErrProducerReceiveEvent = ''producer receiving event''"
definition ErrProducerParseLabel :: string where
  "ErrProducerParseLabel = ''producer parsing label''"

definition dockerHostAddress :: string where
  "dockerHostAddress = ''host.docker.internal''"
definition metricsPort :: string where
  "metricsPort = ''2112/tcp''"
definition globalScrapeInterval :: string where
  "globalScrapeInterval = ''60s''"

section \<open>The persisted document\<close>

record staticConfig =
  Targets :: "string list"

record scrapeConfig =
  JobName :: string
  StaticConfigs :: "staticConfig list"

record prometheusConf =
  ScrapeInterval :: string
  ScrapeConfigs :: "scrapeConfig list"

section \<open>The collaborators\<close>

text \<open>What the Docker client returns: a listed container, a port binding, a stream message.\<close>

record container =
  ID :: string
  Names :: "string list"
  Labels :: "string \<rightharpoonup> string"

record portBinding =
  HostIP :: string
  HostPort :: string

type_synonym portMap = "string \<rightharpoonup> portBinding list"

record message =
  Action :: string
  ActorID :: string
  ActorAttributes :: "string \<rightharpoonup> string"

datatype signal = MsgEvent message | ErrEvent string

text \<open>
  Everything the code calls and does not define, as parameters: the clock (its n-th
  reading), the Docker client (\<open>Inl\<close> is the error it returns), an error of
  \<^verbatim>\<open>os.ReadFile\<close> that \<^verbatim>\<open>os.IsNotExist\<close> does not accept (such as a denied permission or
  a path component that is not a directory, whether the file exists or not), an error of
  \<^verbatim>\<open>os.OpenFile\<close>, the YAML library, the HTTP client (a transport error, or the status code and status line), and
  the order in which \<^verbatim>\<open>range\<close> visits the keys of a map, which Go leaves open.
\<close>

record env =
  time_now :: "nat \<Rightarrow> nat"
  container_list :: "string + container list"
  container_inspect :: "string \<Rightarrow> string + portMap"
  read_fault :: "string option"
  open_fault :: "string option"
  yaml_unmarshal :: "string \<Rightarrow> string + prometheusConf"
  yaml_encode :: "prometheusConf \<Rightarrow> string + string"
  http_do :: "string + nat \<times> string"
  range_events :: "(string \<rightharpoonup> event) \<Rightarrow> string list"
  range_targets :: "(string \<rightharpoonup> string) \<Rightarrow> string list"

section \<open>The consumer\<close>

text \<open>
  The loop of \<^verbatim>\<open>getCurrentState\<close> over the parsed scrape configs. Indexing an empty slice
  with 0 panics.
\<close>

fun getCurrentState_loop ::
  "scrapeConfig list \<Rightarrow> (string \<rightharpoonup> string) \<Rightarrow> (string \<rightharpoonup> string) outcome" where
  "getCurrentState_loop [] stateMap = Ok stateMap"
| "getCurrentState_loop (sc # scs) stateMap =
     (case StaticConfigs sc of
        [] \<Rightarrow> Panic index_out_of_range
      | st # _ \<Rightarrow>
          (case Targets st of
             [] \<Rightarrow> Panic index_out_of_range
           | t # _ \<Rightarrow> getCurrentState_loop scs (stateMap(JobName sc \<mapsto> t))))"

text \<open>
  What \<^verbatim>\<open>os.ReadFile\<close> returns: the bytes, an error that \<^verbatim>\<open>os.IsNotExist\<close> accepts, or
  any other error. A fault of the read wins over the state of the file: an absent file
  whose read is denied gives the other error, not the one \<^verbatim>\<open>os.IsNotExist\<close> accepts.
\<close>

datatype read_result = Contents string | NotExist | ReadFailed string

definition os_ReadFile :: "env \<Rightarrow> world \<Rightarrow> read_result" where
  "os_ReadFile env w =
     (case read_fault env of
        Some err \<Rightarrow> ReadFailed err
      | None \<Rightarrow> (case state_file w of None \<Rightarrow> NotExist | Some f \<Rightarrow> Contents f))"

definition getCurrentState :: "env \<Rightarrow> world \<Rightarrow> (string \<rightharpoonup> string) outcome \<times> world" where
  "getCurrentState env w =
     (let w1 = emit ReadFile w in
      case os_ReadFile env w of
        NotExist \<Rightarrow> (Ok Map.empty, w1)
      | ReadFailed err \<Rightarrow> (Err err, w1)
      | Contents f \<Rightarrow>
          (case yaml_unmarshal env f of
             Inl err \<Rightarrow> (Err err, w1)
           | Inr conf \<Rightarrow> (getCurrentState_loop (ScrapeConfigs conf) Map.empty, w1)))"

definition lookupHostMappingFor :: "env \<Rightarrow> string \<Rightarrow> world \<Rightarrow> string outcome \<times> world" where
  "lookupHostMappingFor env c w =
     (let w1 = emit (ContainerInspect c) w in
      case container_inspect env c of
        Inl err \<Rightarrow> (Err (errorf ErrConsumerInspectContainer err), w1)
      | Inr ports \<Rightarrow>
          (case ports metricsPort of
             Some hostMapping \<Rightarrow>
               (case hostMapping of
                  [] \<Rightarrow> (Panic index_out_of_range, w1)
                | b # _ \<Rightarrow> (Ok (dockerHostAddress @ '':'' @ HostPort b), w1))
           | None \<Rightarrow> (Err (errorf ErrConsumerParseHostMapping ''port 2112 not present''), w1)))"

text \<open>
  The loop of \<^verbatim>\<open>diff\<close> over the events in the order \<^verbatim>\<open>range\<close> visits them: an upsert
  under \<^verbatim>\<open>event.name\<close>, a delete of the key \<^verbatim>\<open>event.containerID\<close>, and no case for any
  other action.
\<close>

fun diff_loop ::
  "env \<Rightarrow> event list \<Rightarrow> (string \<rightharpoonup> string) \<Rightarrow> world \<Rightarrow> (string \<rightharpoonup> string) outcome \<times> world" where
  "diff_loop env [] stateMap w = (Ok stateMap, w)"
| "diff_loop env (e # es) stateMap w =
     (if action e = startEvent \<or> action e = runningEvent then
        (case lookupHostMappingFor env (containerID e) w of
           (Ok hostMapping, w1) \<Rightarrow> diff_loop env es (stateMap(name e \<mapsto> hostMapping)) w1
         | (Err err, w1) \<Rightarrow> diff_loop env es stateMap (logErrorf ErrConsumerDiffTargets err w1)
         | (Panic p, w1) \<Rightarrow> (Panic p, w1))
      else if action e = stopEvent \<or> action e = dieEvent then
        diff_loop env es (stateMap(containerID e := None)) w
      else diff_loop env es stateMap w)"

text \<open>The values of a map in the order its keys are visited; a key it does not hold is passed over.\<close>

definition range_values :: "'k list \<Rightarrow> ('k \<rightharpoonup> 'v) \<Rightarrow> 'v list" where
  "range_values ks m = List.map_filter m ks"

definition diff ::
  "env \<Rightarrow> (string \<rightharpoonup> event) \<Rightarrow> (string \<rightharpoonup> string) \<Rightarrow> world \<Rightarrow> (string \<rightharpoonup> string) outcome \<times> world" where
  "diff env evs stateMap w = diff_loop env (range_values (range_events env evs) evs) stateMap w"

text \<open>The document \<^verbatim>\<open>publish\<close> builds: one job per entry, one static config, one target.\<close>

definition publish_job :: "string \<Rightarrow> string \<Rightarrow> scrapeConfig" where
  "publish_job jobName target =
     \<lparr>JobName = jobName, StaticConfigs = [\<lparr>Targets = [target]\<rparr>]\<rparr>"

definition publish_conf :: "string list \<Rightarrow> (string \<rightharpoonup> string) \<Rightarrow> prometheusConf" where
  "publish_conf ks scrapeTargets =
     \<lparr>ScrapeInterval = globalScrapeInterval,
      ScrapeConfigs =
        List.map_filter (\<lambda>k. map_option (publish_job k) (scrapeTargets k)) ks\<rparr>"

text \<open>
  \<^verbatim>\<open>publish\<close>: opening with \<^verbatim>\<open>O_TRUNC\<close> empties the file before anything is encoded, so
  a failing encoder leaves it truncated.
\<close>

definition publish :: "env \<Rightarrow> (string \<rightharpoonup> string) \<Rightarrow> world \<Rightarrow> string option \<times> world" where
  "publish env scrapeTargets w =
     (let promConf = publish_conf (range_targets env scrapeTargets) scrapeTargets;
          w1 = emit OpenFile w in
      case open_fault env of
        Some err \<Rightarrow> (Some (errorf ErrConsumerPublish err), w1)
      | None \<Rightarrow>
          (let w2 = w1\<lparr>state_file := Some []\<rparr> in
           case yaml_encode env promConf of
             Inl err \<Rightarrow> (Some (errorf ErrConsumerPublish err), w2)
           | Inr bytes \<Rightarrow> (None, emit (WriteFile bytes) (w2\<lparr>state_file := Some bytes\<rparr>))))"

text \<open>
  \<^verbatim>\<open>sendSignal\<close>: \<^verbatim>\<open>http.NewRequest\<close> is called with a constant method and a
  constant URL, both well formed, so its error branch is never taken and has no case here.
\<close>

definition sendSignal :: "env \<Rightarrow> world \<Rightarrow> string option \<times> world" where
  "sendSignal env w =
     (let w1 = emit HttpPost w in
      case http_do env of
        Inl err \<Rightarrow> (Some (errorf ErrConsumerMakeRequest err), w1)
      | Inr (statusCode, status) \<Rightarrow>
          if statusCode \<noteq> 200 then (Some (errorf ErrConsumerMakeRequest status), w1)
          else (None, emit (LogPrint ''sent reload signal to prometheus'') w1))"

definition log_if_error :: "string \<Rightarrow> string option \<Rightarrow> world \<Rightarrow> world" where
  "log_if_error e r w = (case r of None \<Rightarrow> w | Some err \<Rightarrow> logErrorf e err w)"

text \<open>One reconciliation cycle.\<close>

definition consume :: "env \<Rightarrow> world \<Rightarrow> unit outcome \<times> world" where
  "consume env w =
     (case flush (elog w) of (evs, el) \<Rightarrow>
        (let w0 = w\<lparr>elog := el\<rparr> in
         if length evs = 0 then (Ok (), w0)
         else
           (let filteredEvents = applyEventFilter evs in
            case getCurrentState env w0 of
              (Err err, w1) \<Rightarrow> (Ok (), logErrorf ErrConsumerGetCurrentState err w1)
            | (Panic p, w1) \<Rightarrow> (Panic p, w1)
            | (Ok stateMap, w1) \<Rightarrow>
                (case diff env filteredEvents stateMap w1 of
                   (Ok scrapeTargets, w2) \<Rightarrow>
                     (case publish env scrapeTargets w2 of (perr, w3) \<Rightarrow>
                        (case sendSignal env (log_if_error ErrConsumerPublish perr w3) of
                           (serr, w4) \<Rightarrow> (Ok (), log_if_error ErrConsumerSendSignal serr w4)))
                 | (Err err, w2) \<Rightarrow> (Err err, w2)
                 | (Panic p, w2) \<Rightarrow> (Panic p, w2)))))"

section \<open>The producers\<close>

text \<open>\<^verbatim>\<open>strconv.ParseBool\<close> of the Go standard library; the error text leaves the quoting out.\<close>

definition ParseBool :: "string \<Rightarrow> string + bool" where
  "ParseBool str =
     (if str \<in> set [''1'', ''t'', ''T'', ''true'', ''TRUE'', ''True''] then Inr True
      else if str \<in> set [''0'', ''f'', ''F'', ''false'', ''FALSE'', ''False''] then Inr False
      else Inl (''strconv.ParseBool: parsing '' @ str @ '': invalid syntax''))"

text \<open>\<^verbatim>\<open>time.Now()\<close>: the next reading of the clock.\<close>

definition push_now :: "env \<Rightarrow> eventType \<Rightarrow> string \<Rightarrow> string \<Rightarrow> world \<Rightarrow> world" where
  "push_now env a c n w =
     w\<lparr>elog := push (elog w)
          \<lparr>action = a, containerID = c, name = n, recordedAt = time_now env (ticks w)\<rparr>,
       ticks := Suc (ticks w)\<rparr>"

text \<open>
  The loop of the snapshot producer. \<^verbatim>\<open>ParseBool\<close> returns false with its error, so a
  label that does not parse is logged and then fails the test \<^verbatim>\<open>if isTarget\<close>.
\<close>

fun scraper_loop :: "env \<Rightarrow> container list \<Rightarrow> world \<Rightarrow> unit outcome \<times> world" where
  "scraper_loop env [] w = (Ok (), w)"
| "scraper_loop env (c # cs) w =
     (case Labels c ''scrape_target'' of
        None \<Rightarrow> scraper_loop env cs w
      | Some label \<Rightarrow>
          (case ParseBool label of
             Inl err \<Rightarrow> scraper_loop env cs (logErrorf ErrProducerParseLabel err w)
           | Inr isTarget \<Rightarrow>
               if isTarget then
                 (case Names c of
                    [] \<Rightarrow> (Panic index_out_of_range, w)
                  | n # _ \<Rightarrow> scraper_loop env cs (push_now env runningEvent (ID c) n w))
               else scraper_loop env cs w))"

text \<open>A failed listing is logged and the loop runs over the nil slice.\<close>

definition scraper_produceEventsFor :: "env \<Rightarrow> world \<Rightarrow> unit outcome \<times> world" where
  "scraper_produceEventsFor env w =
     (let w1 = emit ContainerList w in
      case container_list env of
        Inl err \<Rightarrow> scraper_loop env [] (logErrorf ErrProducerReceiveEvent err w1)
      | Inr containers \<Rightarrow> scraper_loop env containers w1)"

text \<open>One turn of the \<^verbatim>\<open>select\<close> of the stream producer.\<close>

definition attribute :: "(string \<rightharpoonup> string) \<Rightarrow> string \<Rightarrow> string" where
  "attribute attrs k = (case attrs k of None \<Rightarrow> [] | Some v \<Rightarrow> v)"

fun streamer_select :: "env \<Rightarrow> signal \<Rightarrow> world \<Rightarrow> world" where
  "streamer_select env (MsgEvent msg) w =
     push_now env (eventTable_index (Action msg)) (ActorID msg)
       (attribute (ActorAttributes msg) ''com.docker.compose.service'') w"
| "streamer_select env (ErrEvent err) w = logErrorf ErrProducerReceiveEvent err w"

text \<open>
  The \<^verbatim>\<open>for\<close> of the stream producer never ends; this is the world after it has taken
  a finite prefix of what the two channels deliver.
\<close>

fun streamer_produceEventsFor :: "env \<Rightarrow> signal list \<Rightarrow> world \<Rightarrow> world" where
  "streamer_produceEventsFor env [] w = w"
| "streamer_produceEventsFor env (s # ss) w =
     streamer_produceEventsFor env ss (streamer_select env s w)"

text \<open>The spec's reading of which listed workload is a target.\<close>

definition opted_in :: "container \<Rightarrow> bool" where
  "opted_in c =
     (case Labels c ''scrape_target'' of
        None \<Rightarrow> False
      | Some label \<Rightarrow> ParseBool label = Inr True)"

text \<open>What the claims read of an event: its action, its identifier and its name.\<close>

definition event_key :: "event \<Rightarrow> eventType \<times> string \<times> string" where
  "event_key e = (action e, containerID e, name e)"

text \<open>The first target string of the first static config of a job entry.\<close>

definition first_target :: "scrapeConfig \<Rightarrow> string" where
  "first_target sc = hd (Targets (hd (StaticConfigs sc)))"

section \<open>An example deployment\<close>

text \<open>
  Concrete collaborators, for evaluating the model: the container \<open>w1\<close> of the service
  \<open>svc-a\<close> has opted in and publishes the metrics port on host port 32000; \<open>w2\<close> has no
  label; the label of \<open>w3\<close> is not a boolean. The YAML library is given on the one
  document this deployment publishes.
\<close>

definition example_conf :: prometheusConf where
  "example_conf =
     \<lparr>ScrapeInterval = ''60s'',
      ScrapeConfigs =
        [\<lparr>JobName = ''svc-a'',
          StaticConfigs = [\<lparr>Targets = [''host.docker.internal:32000'']\<rparr>]\<rparr>]\<rparr>"

definition example_env :: env where
  "example_env =
     \<lparr>time_now = (\<lambda>n. n),
      container_list =
        Inr [\<lparr>ID = ''w1'', Names = [''/svc-a''], Labels = [''scrape_target'' \<mapsto> ''true'']\<rparr>,
             \<lparr>ID = ''w2'', Names = [''/db''], Labels = Map.empty\<rparr>,
             \<lparr>ID = ''w3'', Names = [''/svc-c''], Labels = [''scrape_target'' \<mapsto> ''yes'']\<rparr>],
      container_inspect =
        (\<lambda>c. if c = ''w1''
             then Inr [''2112/tcp'' \<mapsto> [\<lparr>HostIP = ''0.0.0.0'', HostPort = ''32000''\<rparr>]]
             else Inl ''No such container''),
      read_fault = None,
      open_fault = None,
      yaml_unmarshal =
        (\<lambda>f. if f = ''svc-a.yaml'' then Inr example_conf else Inl ''yaml: unmarshal errors''),
      yaml_encode = (\<lambda>c. if c = example_conf then Inr ''svc-a.yaml'' else Inr ''other.yaml''),
      http_do = Inr (200, ''200 OK''),
      range_events = (\<lambda>evs. [''w1'']),
      range_targets = (\<lambda>scrapeTargets. [''svc-a''])\<rparr>"

definition example_start :: event where
  "example_start = \<lparr>action = startEvent, containerID = ''w1'', name = ''svc-a'', recordedAt = 0\<rparr>"

definition example_world :: world where
  "example_world =
     \<lparr>elog = \<lparr>events = [example_start]\<rparr>, state_file = None, trace = [], ticks = 1\<rparr>"

section \<open>Properties of the event log\<close>

lemma run_calls_concat:
  "concat (fst (run_calls cs el)) @ events (snd (run_calls cs el)) = events el @ pushed cs"
proof (induction cs el rule: run_calls.induct)
  case (1 el)
  show ?case by simp
next
  case (2 e cs el)
  then show ?case by (simp add: push_def)
next
  case (3 cs el)
  then show ?case by (auto simp: flush_def split: prod.splits)
qed

lemma run_calls_append:
  "run_calls (cs @ ds) el =
     (fst (run_calls cs el) @ fst (run_calls ds (snd (run_calls cs el))),
      snd (run_calls ds (snd (run_calls cs el))))"
  by (induction cs el rule: run_calls.induct) (auto split: prod.splits)

lemma distinct_concat_nth_disjoint:
  "distinct (concat xss) \<Longrightarrow> i < j \<Longrightarrow> j < length xss \<Longrightarrow> set (xss ! i) \<inter> set (xss ! j) = {}"
proof (induction xss arbitrary: i j)
  case Nil
  then show ?case by simp
next
  case (Cons xs xss)
  obtain j' where j: "j = Suc j'" using Cons.prems(2) by (cases j) auto
  show ?case
  proof (cases i)
    case 0
    have "xss ! j' \<in> set xss" using Cons.prems(3) j by simp
    then show ?thesis using Cons.prems(1) 0 j by auto
  next
    case (Suc i')
    then show ?thesis using Cons.IH[of i' j'] Cons.prems j by simp
  qed
qed

text \<open>
  C2. For every sequence of push and flush calls, the results of the flushes, one after
  the other, followed by what is still buffered, are the buffer at the start followed by
  the pushed events in push order. So on a new log, once a last flush has run, the flush
  results joined are exactly the pushed events in push order and the buffer is empty. A
  flush returns the whole buffer and leaves it empty; a flush of an empty buffer returns
  the empty sequence. When the pushed events are pairwise different, no event occurs
  twice in the joined results, and no two flush results share an event.
\<close>

theorem eventLog_exactly_once:
  "concat (fst (run_calls cs el)) @ events (snd (run_calls cs el)) = events el @ pushed cs
   \<and> concat (fst (run_calls (cs @ [Flush]) newEventLog)) = pushed cs
   \<and> events (snd (run_calls (cs @ [Flush]) newEventLog)) = []
   \<and> fst (flush el) = events el
   \<and> events (snd (flush el)) = []
   \<and> fst (flush (snd (flush el))) = []
   \<and> fst (flush newEventLog) = []
   \<and> (distinct (pushed cs) \<longrightarrow>
        distinct (concat (fst (run_calls (cs @ [Flush]) newEventLog)))
        \<and> (\<forall>i j. i < j \<and> j < length (fst (run_calls (cs @ [Flush]) newEventLog)) \<longrightarrow>
              set (fst (run_calls (cs @ [Flush]) newEventLog) ! i)
              \<inter> set (fst (run_calls (cs @ [Flush]) newEventLog) ! j) = {}))"
proof -
  have a: "concat (fst (run_calls cs el)) @ events (snd (run_calls cs el)) = events el @ pushed cs"
    by (rule run_calls_concat)
  have b: "concat (fst (run_calls (cs @ [Flush]) newEventLog)) = pushed cs"
    using run_calls_concat[of cs newEventLog]
    by (simp add: run_calls_append flush_def newEventLog_def split: prod.splits)
  have c: "events (snd (run_calls (cs @ [Flush]) newEventLog)) = []"
    by (simp add: run_calls_append flush_def split: prod.splits)
  have d: "fst (flush el) = events el" "events (snd (flush el)) = []"
    "fst (flush (snd (flush el))) = []" "fst (flush newEventLog) = []"
    by (simp_all add: flush_def newEventLog_def)
  have e: "distinct (pushed cs) \<longrightarrow>
        distinct (concat (fst (run_calls (cs @ [Flush]) newEventLog)))
        \<and> (\<forall>i j. i < j \<and> j < length (fst (run_calls (cs @ [Flush]) newEventLog)) \<longrightarrow>
              set (fst (run_calls (cs @ [Flush]) newEventLog) ! i)
              \<inter> set (fst (run_calls (cs @ [Flush]) newEventLog) ! j) = {})"
    using distinct_concat_nth_disjoint[of "fst (run_calls (cs @ [Flush]) newEventLog)"]
    unfolding b[symmetric] by blast
  from a b c d e show ?thesis by blast
qed

text \<open>
  The theorem at a push, a flush and two more pushes: the last flush returns the two
  later events, in push order, and the first flush had returned the first one.
\<close>

theorem eventLog_exactly_once_witness:
  "distinct (pushed
      [Push \<lparr>action = 1, containerID = ''w1'', name = ''svc-a'', recordedAt = 0\<rparr>, Flush,
       Push \<lparr>action = 4, containerID = ''w1'', name = ''svc-a'', recordedAt = 1\<rparr>,
       Push \<lparr>action = 2, containerID = ''w2'', name = ''svc-b'', recordedAt = 2\<rparr>])
   \<and> fst (run_calls
      ([Push \<lparr>action = 1, containerID = ''w1'', name = ''svc-a'', recordedAt = 0\<rparr>, Flush,
        Push \<lparr>action = 4, containerID = ''w1'', name = ''svc-a'', recordedAt = 1\<rparr>,
        Push \<lparr>action = 2, containerID = ''w2'', name = ''svc-b'', recordedAt = 2\<rparr>] @ [Flush])
      newEventLog)
     = [[\<lparr>action = 1, containerID = ''w1'', name = ''svc-a'', recordedAt = 0\<rparr>],
        [\<lparr>action = 4, containerID = ''w1'', name = ''svc-a'', recordedAt = 1\<rparr>,
         \<lparr>action = 2, containerID = ''w2'', name = ''svc-b'', recordedAt = 2\<rparr>]]
   \<and> distinct (concat (fst (run_calls
      ([Push \<lparr>action = 1, containerID = ''w1'', name = ''svc-a'', recordedAt = 0\<rparr>, Flush,
        Push \<lparr>action = 4, containerID = ''w1'', name = ''svc-a'', recordedAt = 1\<rparr>,
        Push \<lparr>action = 2, containerID = ''w2'', name = ''svc-b'', recordedAt = 2\<rparr>] @ [Flush])
      newEventLog)))"
  using eventLog_exactly_once
    [of "[Push \<lparr>action = 1, containerID = ''w1'', name = ''svc-a'', recordedAt = 0\<rparr>, Flush,
          Push \<lparr>action = 4, containerID = ''w1'', name = ''svc-a'', recordedAt = 1\<rparr>,
          Push \<lparr>action = 2, containerID = ''w2'', name = ''svc-b'', recordedAt = 2\<rparr>]" newEventLog]
  by (simp add: newEventLog_def push_def flush_def)

section \<open>Properties of coalescing\<close>

lemma find_snoc:
  "List.find P (xs @ [x]) =
     (case List.find P xs of None \<Rightarrow> (if P x then Some x else None) | Some y \<Rightarrow> Some y)"
  by (induction xs) auto

lemma applyEventFilter_loop_find:
  "applyEventFilter_loop evs m k =
     (case List.find (\<lambda>e. containerID e = k) (rev evs) of None \<Rightarrow> m k | Some e \<Rightarrow> Some e)"
  by (induction evs arbitrary: m) (auto simp: find_snoc split: option.splits)

text \<open>
  C3. The coalesced map holds, under each workload identifier, the last event of the
  drained sequence with that identifier (the first one found from the end), and nothing
  under an identifier no event has. For the drained events (W1, Start), (W1, Die),
  (W2, Running) it is the map of W1 to the Die event and of W2 to the Running event.
\<close>

theorem applyEventFilter_last_wins:
  "applyEventFilter evs k = List.find (\<lambda>e. containerID e = k) (rev evs)
   \<and> applyEventFilter
        [\<lparr>action = startEvent, containerID = ''W1'', name = n1, recordedAt = t1\<rparr>,
         \<lparr>action = dieEvent, containerID = ''W1'', name = n1, recordedAt = t2\<rparr>,
         \<lparr>action = runningEvent, containerID = ''W2'', name = n2, recordedAt = t3\<rparr>]
      = [''W1'' \<mapsto> \<lparr>action = dieEvent, containerID = ''W1'', name = n1, recordedAt = t2\<rparr>,
         ''W2'' \<mapsto> \<lparr>action = runningEvent, containerID = ''W2'', name = n2, recordedAt = t3\<rparr>]"
  by (simp add: applyEventFilter_def applyEventFilter_loop_find split: option.splits)

section \<open>Properties of a reconciliation cycle\<close>

text \<open>
  One cycle of the example deployment, from no state file and a Start event of \<open>w1\<close>:
  the state is read, the container inspected, the document written and the reload sent.
\<close>

lemma consume_example_cycle:
  "consume example_env example_world =
     (Ok (),
      \<lparr>elog = \<lparr>events = []\<rparr>, state_file = Some ''svc-a.yaml'',
       trace = [ReadFile, ContainerInspect ''w1'', OpenFile, WriteFile ''svc-a.yaml'',
                HttpPost, LogPrint ''sent reload signal to prometheus''],
       ticks = 1\<rparr>)"
  by (simp add: consume_def flush_def example_world_def example_env_def example_start_def
      example_conf_def applyEventFilter_def getCurrentState_def os_ReadFile_def diff_def range_values_def
      List.map_filter_simps lookupHostMappingFor_def metricsPort_def dockerHostAddress_def
      publish_def publish_conf_def publish_job_def globalScrapeInterval_def sendSignal_def
      log_if_error_def emit_def startEvent_def Let_def)

text \<open>
  C6. When the event log is empty, a cycle returns with the world as it was: the trace of
  effects has no read of the state file, no open or write of it and no HTTP request, and
  the file and the log are unchanged.
\<close>

theorem consume_idle_noop:
  "events (elog w) = [] \<Longrightarrow> consume env w = (Ok (), w)"
  by (simp add: consume_def flush_def)

theorem consume_idle_noop_witness:
  "events (elog (example_world\<lparr>elog := newEventLog\<rparr>)) = []
   \<and> consume example_env (example_world\<lparr>elog := newEventLog\<rparr>)
     = (Ok (), example_world\<lparr>elog := newEventLog\<rparr>)"
  using consume_idle_noop [of "example_world\<lparr>elog := newEventLog\<rparr>" example_env]
  by (simp add: example_world_def newEventLog_def)

text \<open>
  C5. When the read of the state file fails because the file does not exist (the file
  is absent and the read has no other fault), loading the state returns the empty map.
  When the read fails with any other error, whether the file exists or not, or the file
  is read and the YAML library rejects its bytes, loading returns that error, and a cycle
  that drained at least one event ends there: its only effects are the read and one
  logged error, so no container is inspected, the file is neither opened nor written, no
  HTTP request is made, the file is as it was, and the drained events are gone from the
  log.
\<close>

theorem consume_aborts_on_state_error:
  "(state_file w = None \<and> read_fault env = None \<longrightarrow>
      os_ReadFile env w = NotExist \<and> fst (getCurrentState env w) = Ok Map.empty)
   \<and> (events (elog w) \<noteq> []
       \<and> (read_fault env = Some err
           \<or> read_fault env = None \<and> state_file w = Some f \<and> yaml_unmarshal env f = Inl err) \<longrightarrow>
       fst (getCurrentState env w) = Err err
       \<and> consume env w =
           (Ok (), w\<lparr>elog := (elog w)\<lparr>events := []\<rparr>,
                     trace := trace w @ [ReadFile, LogError (errorf ErrConsumerGetCurrentState err)]\<rparr>))"
  by (auto simp: consume_def flush_def getCurrentState_def os_ReadFile_def logErrorf_def
      emit_def Let_def)

text \<open>
  The theorem at the example deployment: with no file, the empty map; with a file the
  library rejects, and with no file and a denied read, the cycle ends after the read.
\<close>

theorem consume_aborts_on_state_error_witness:
  "state_file example_world = None
   \<and> read_fault example_env = None
   \<and> fst (getCurrentState example_env example_world) = Ok Map.empty
   \<and> events (elog example_world) \<noteq> []
   \<and> yaml_unmarshal example_env ''not yaml'' = Inl ''yaml: unmarshal errors''
   \<and> consume example_env (example_world\<lparr>state_file := Some ''not yaml''\<rparr>)
     = (Ok (),
        \<lparr>elog = \<lparr>events = []\<rparr>, state_file = Some ''not yaml'',
         trace = [ReadFile,
                  LogError ''consumer getting current state: yaml: unmarshal errors''],
         ticks = 1\<rparr>)
   \<and> consume (example_env\<lparr>read_fault := Some ''permission denied''\<rparr>) example_world
     = (Ok (),
        \<lparr>elog = \<lparr>events = []\<rparr>, state_file = None,
         trace = [ReadFile,
                  LogError ''consumer getting current state: permission denied''],
         ticks = 1\<rparr>)"
  using consume_aborts_on_state_error
    [of example_world example_env "''not yaml''" "''yaml: unmarshal errors''"]
    consume_aborts_on_state_error
    [of "example_world\<lparr>state_file := Some ''not yaml''\<rparr>" example_env
        "''yaml: unmarshal errors''" "''not yaml''"]
    consume_aborts_on_state_error
    [of example_world "example_env\<lparr>read_fault := Some ''permission denied''\<rparr>"
        "''permission denied''" "''not yaml''"]
  by (simp add: example_world_def example_env_def example_start_def errorf_def
      ErrConsumerGetCurrentState_def)

section \<open>Properties of the diff\<close>

lemma diff_loop_skips_unknown:
  "diff_loop env es stateMap w =
     diff_loop env
       (filter (\<lambda>e. action e \<in> {startEvent, runningEvent, stopEvent, dieEvent}) es) stateMap w"
  by (induction es arbitrary: stateMap w) (simp_all split: prod.splits outcome.splits)

text \<open>
  C7. The lookup of an action name is total: a name other than start, running, stop and
  die gives the action 0, which is none of the four recognised actions, and the stream
  producer pushes the event with that action like any other. The diff passes over every
  event whose action is none of the four: it computes what it computes on the remaining
  events, and when no event has a recognised action it returns the state it was given and
  has no effect.
\<close>

theorem unknown_action_no_transition:
  "(a \<notin> {''start'', ''running'', ''stop'', ''die''} \<longrightarrow>
      eventTable_index a = 0
      \<and> eventTable_index a \<notin> {startEvent, runningEvent, stopEvent, dieEvent})
   \<and> events (elog (streamer_select env (MsgEvent msg) w)) =
       events (elog w) @
         [\<lparr>action = eventTable_index (Action msg), containerID = ActorID msg,
           name = attribute (ActorAttributes msg) ''com.docker.compose.service'',
           recordedAt = time_now env (ticks w)\<rparr>]
   \<and> diff_loop env es stateMap w =
       diff_loop env
         (filter (\<lambda>e. action e \<in> {startEvent, runningEvent, stopEvent, dieEvent}) es) stateMap w
   \<and> ((\<forall>e\<in>set es. action e \<notin> {startEvent, runningEvent, stopEvent, dieEvent}) \<longrightarrow>
        diff_loop env es stateMap w = (Ok stateMap, w))
   \<and> ((\<forall>k e. evs k = Some e \<longrightarrow> action e \<notin> {startEvent, runningEvent, stopEvent, dieEvent}) \<longrightarrow>
        diff env evs stateMap w = (Ok stateMap, w))"
proof -
  have a: "a \<notin> {''start'', ''running'', ''stop'', ''die''} \<longrightarrow>
      eventTable_index a = 0
      \<and> eventTable_index a \<notin> {startEvent, runningEvent, stopEvent, dieEvent}"
    by (simp add: eventTable_index_def eventTable_def startEvent_def runningEvent_def
        stopEvent_def dieEvent_def)
  have b: "events (elog (streamer_select env (MsgEvent msg) w)) =
       events (elog w) @
         [\<lparr>action = eventTable_index (Action msg), containerID = ActorID msg,
           name = attribute (ActorAttributes msg) ''com.docker.compose.service'',
           recordedAt = time_now env (ticks w)\<rparr>]"
    by (simp add: push_now_def push_def)
  have c: "\<And>es. (\<forall>e\<in>set es. action e \<notin> {startEvent, runningEvent, stopEvent, dieEvent}) \<longrightarrow>
        diff_loop env es stateMap w = (Ok stateMap, w)"
  proof
    fix es :: "event list"
    assume h: "\<forall>e\<in>set es. action e \<notin> {startEvent, runningEvent, stopEvent, dieEvent}"
    then have "filter (\<lambda>e. action e \<in> {startEvent, runningEvent, stopEvent, dieEvent}) es = []"
      by (induction es) auto
    then show "diff_loop env es stateMap w = (Ok stateMap, w)"
      using diff_loop_skips_unknown[of env es stateMap w] by simp
  qed
  have d: "(\<forall>k e. evs k = Some e \<longrightarrow> action e \<notin> {startEvent, runningEvent, stopEvent, dieEvent}) \<longrightarrow>
        diff env evs stateMap w = (Ok stateMap, w)"
  proof
    assume h: "\<forall>k e. evs k = Some e \<longrightarrow> action e \<notin> {startEvent, runningEvent, stopEvent, dieEvent}"
    have "\<forall>e\<in>set (range_values (range_events env evs) evs).
            action e \<notin> {startEvent, runningEvent, stopEvent, dieEvent}"
      using h by (auto simp: range_values_def List.map_filter_def)
    then show "diff env evs stateMap w = (Ok stateMap, w)"
      using c by (simp add: diff_def)
  qed
  from a b c[of es] d diff_loop_skips_unknown[of env es stateMap w] show ?thesis by blast
qed

theorem unknown_action_no_transition_witness:
  "''kill'' \<notin> {''start'', ''running'', ''stop'', ''die''}
   \<and> eventTable_index ''kill'' = 0
   \<and> events (elog (streamer_select example_env
        (MsgEvent \<lparr>Action = ''kill'', ActorID = ''w1'',
                   ActorAttributes = [''com.docker.compose.service'' \<mapsto> ''svc-a'']\<rparr>)
        example_world))
     = [example_start,
        \<lparr>action = 0, containerID = ''w1'', name = ''svc-a'', recordedAt = 1\<rparr>]
   \<and> diff_loop example_env
        [\<lparr>action = 0, containerID = ''w1'', name = ''svc-a'', recordedAt = 1\<rparr>]
        [''svc-a'' \<mapsto> ''host.docker.internal:32000''] example_world
     = (Ok [''svc-a'' \<mapsto> ''host.docker.internal:32000''], example_world)
   \<and> diff example_env
        [''w1'' \<mapsto> \<lparr>action = 0, containerID = ''w1'', name = ''svc-a'', recordedAt = 1\<rparr>]
        [''svc-a'' \<mapsto> ''host.docker.internal:32000''] example_world
     = (Ok [''svc-a'' \<mapsto> ''host.docker.internal:32000''], example_world)"
proof -
  let ?e = "\<lparr>action = 0, containerID = ''w1'', name = ''svc-a'', recordedAt = 1\<rparr>"
  let ?msg = "\<lparr>Action = ''kill'', ActorID = ''w1'',
               ActorAttributes = [''com.docker.compose.service'' \<mapsto> ''svc-a'']\<rparr>"
  let ?st = "[''svc-a'' \<mapsto> ''host.docker.internal:32000'']"
  note th = unknown_action_no_transition
    [of "''kill''" example_env ?msg example_world "[?e]" ?st "[''w1'' \<mapsto> ?e]"]
  have h1: "''kill'' \<notin> {''start'', ''running'', ''stop'', ''die''}"
    by simp
  have h2: "\<forall>e\<in>set [?e]. action e \<notin> {startEvent, runningEvent, stopEvent, dieEvent}"
    by (simp add: startEvent_def runningEvent_def stopEvent_def dieEvent_def)
  have h3: "\<forall>k e. [''w1'' \<mapsto> ?e] k = Some e \<longrightarrow>
              action e \<notin> {startEvent, runningEvent, stopEvent, dieEvent}"
    by (auto simp: startEvent_def runningEvent_def stopEvent_def dieEvent_def
        split: if_splits)
  from th h1 have a: "eventTable_index ''kill'' = 0"
    by blast
  from th have "events (elog (streamer_select example_env (MsgEvent ?msg) example_world))
      = events (elog example_world) @
          [\<lparr>action = eventTable_index (Action ?msg), containerID = ActorID ?msg,
            name = attribute (ActorAttributes ?msg) ''com.docker.compose.service'',
            recordedAt = time_now example_env (ticks example_world)\<rparr>]"
    by blast
  then have b: "events (elog (streamer_select example_env (MsgEvent ?msg) example_world))
      = [example_start, ?e]"
    by (simp add: a attribute_def example_world_def example_env_def)
  from th h2 have c: "diff_loop example_env [?e] ?st example_world = (Ok ?st, example_world)"
    by blast
  from th h3 have d: "diff example_env [''w1'' \<mapsto> ?e] ?st example_world
      = (Ok ?st, example_world)"
    by blast
  from h1 a b c d show ?thesis
    by blast
qed

text \<open>
  C1. The code at the claim's own scenario. A Start event of the workload \<open>w1\<close> with
  the name \<open>svc-a\<close> publishes the entry under the key \<open>svc-a\<close>. A later Die event of
  the same workload deletes the key \<open>w1\<close>, which the state does not hold, and the entry
  under \<open>svc-a\<close> is still there.
\<close>

theorem diff_die_keeps_job_entry:
  "fst (diff_loop
         (env\<lparr>container_inspect :=
                 (\<lambda>c. Inr [metricsPort \<mapsto> [\<lparr>HostIP = ''0.0.0.0'', HostPort = ''32000''\<rparr>]])\<rparr>)
         [\<lparr>action = startEvent, containerID = ''w1'', name = ''svc-a'', recordedAt = t\<rparr>]
         Map.empty w)
     = Ok [''svc-a'' \<mapsto> ''host.docker.internal:32000'']
   \<and> fst (diff_loop env'
         [\<lparr>action = dieEvent, containerID = ''w1'', name = ''svc-a'', recordedAt = t'\<rparr>]
         [''svc-a'' \<mapsto> ''host.docker.internal:32000''] w')
     = Ok [''svc-a'' \<mapsto> ''host.docker.internal:32000'']
   \<and> fst (diff example_env
         (applyEventFilter
            [\<lparr>action = dieEvent, containerID = ''w1'', name = ''svc-a'', recordedAt = t'\<rparr>])
         [''svc-a'' \<mapsto> ''host.docker.internal:32000''] w')
     = Ok [''svc-a'' \<mapsto> ''host.docker.internal:32000'']"
  by (simp add: lookupHostMappingFor_def dockerHostAddress_def startEvent_def runningEvent_def
      stopEvent_def dieEvent_def diff_def range_values_def List.map_filter_simps
      applyEventFilter_def example_env_def Let_def)

section \<open>Panics\<close>

text \<open>
  C4. Three inputs on which the code panics, and nothing recovers: a state file that
  parses, with a job entry that has no static config; an inspected container whose
  metrics port is exposed with no host binding; and a listed container that has opted in
  and has no name.
\<close>

theorem consume_panics:
  "fst (consume
         (env\<lparr>read_fault := None,
              yaml_unmarshal :=
                (\<lambda>f. Inr \<lparr>ScrapeInterval = ''60s'',
                           ScrapeConfigs = [\<lparr>JobName = ''svc-a'', StaticConfigs = []\<rparr>]\<rparr>)\<rparr>)
         (w\<lparr>elog := \<lparr>events = [e]\<rparr>, state_file := Some f\<rparr>))
     = Panic index_out_of_range
   \<and> fst (lookupHostMappingFor
         (env\<lparr>container_inspect := (\<lambda>c. Inr [metricsPort \<mapsto> []])\<rparr>) ''w1'' w)
     = Panic index_out_of_range
   \<and> fst (scraper_produceEventsFor
         (env\<lparr>container_list :=
                 Inr [\<lparr>ID = ''w1'', Names = [], Labels = [''scrape_target'' \<mapsto> ''true'']\<rparr>]\<rparr>) w)
     = Panic index_out_of_range"
  by (simp add: consume_def flush_def getCurrentState_def os_ReadFile_def lookupHostMappingFor_def
      scraper_produceEventsFor_def ParseBool_def Let_def)

section \<open>Properties of publishing and loading\<close>

lemma getCurrentState_loop_publish:
  "getCurrentState_loop
     (List.map_filter (\<lambda>k. map_option (publish_job k) (m k)) ks) stateMap
   = Ok (\<lambda>j. if j \<in> set ks \<and> j \<in> dom m then m j else stateMap j)"
proof (induction ks arbitrary: stateMap)
  case Nil
  show ?case by (simp add: List.map_filter_simps)
next
  case (Cons k ks)
  let ?job = "\<lambda>k. map_option (publish_job k) (m k)"
  show ?case
  proof (cases "m k")
    case None
    have "getCurrentState_loop (List.map_filter ?job (k # ks)) stateMap
        = getCurrentState_loop (List.map_filter ?job ks) stateMap"
      by (simp add: List.map_filter_simps None)
    also have "\<dots> = Ok (\<lambda>j. if j \<in> set ks \<and> j \<in> dom m then m j else stateMap j)"
      by (rule Cons.IH)
    also have "(\<lambda>j. if j \<in> set ks \<and> j \<in> dom m then m j else stateMap j)
        = (\<lambda>j. if j \<in> set (k # ks) \<and> j \<in> dom m then m j else stateMap j)"
      using None by (intro ext) (auto simp: dom_def)
    finally show ?thesis .
  next
    case (Some t)
    have "getCurrentState_loop (List.map_filter ?job (k # ks)) stateMap
        = getCurrentState_loop (List.map_filter ?job ks) (stateMap(k \<mapsto> t))"
      by (simp add: List.map_filter_simps Some publish_job_def)
    also have "\<dots> = Ok (\<lambda>j. if j \<in> set ks \<and> j \<in> dom m then m j else (stateMap(k \<mapsto> t)) j)"
      by (rule Cons.IH)
    also have "(\<lambda>j. if j \<in> set ks \<and> j \<in> dom m then m j else (stateMap(k \<mapsto> t)) j)
        = (\<lambda>j. if j \<in> set (k # ks) \<and> j \<in> dom m then m j else stateMap j)"
      using Some by (intro ext) (auto simp: dom_def)
    finally show ?thesis .
  qed
qed

text \<open>
  C8. Let the order in which the published map is visited cover its keys, let opening
  and reading the file succeed, and let the YAML library decode what it encoded for the
  document that is published. Then publishing returns no error, the file holds the
  encoded document, and loading the state afterwards returns the published map. The
  visiting order is any order.
\<close>

theorem publish_getCurrentState_roundtrip:
  assumes "set (range_targets env m) = dom m"
    and "open_fault env = None" and "read_fault env = None"
    and "yaml_encode env (publish_conf (range_targets env m) m) = Inr bytes"
    and "yaml_unmarshal env bytes = Inr (publish_conf (range_targets env m) m)"
  shows "fst (publish env m w) = None
    \<and> state_file (snd (publish env m w)) = Some bytes
    \<and> fst (getCurrentState env (snd (publish env m w))) = Ok m"
proof -
  have p: "publish env m w =
      (None, emit (WriteFile bytes) (emit OpenFile w\<lparr>state_file := Some bytes\<rparr>))"
    using assms(2,4) by (simp add: publish_def Let_def)
  have "(\<lambda>j. if j \<in> set (range_targets env m) \<and> j \<in> dom m then m j else None) = m"
    using assms(1) by (intro ext) (auto simp: dom_def)
  then have "getCurrentState_loop (ScrapeConfigs (publish_conf (range_targets env m) m)) Map.empty
      = Ok m"
    by (simp add: publish_conf_def getCurrentState_loop_publish)
  then show ?thesis using assms(3,5)
    by (simp add: p getCurrentState_def os_ReadFile_def emit_def Let_def)
qed

theorem publish_getCurrentState_roundtrip_witness:
  "set (range_targets example_env [''svc-a'' \<mapsto> ''host.docker.internal:32000''])
     = dom [''svc-a'' \<mapsto> ''host.docker.internal:32000'']
   \<and> yaml_encode example_env
        (publish_conf [''svc-a''] [''svc-a'' \<mapsto> ''host.docker.internal:32000''])
     = Inr ''svc-a.yaml''
   \<and> fst (publish example_env [''svc-a'' \<mapsto> ''host.docker.internal:32000''] example_world)
     = None
   \<and> fst (getCurrentState example_env
        (snd (publish example_env [''svc-a'' \<mapsto> ''host.docker.internal:32000'']
               example_world)))
     = Ok [''svc-a'' \<mapsto> ''host.docker.internal:32000'']"
  using publish_getCurrentState_roundtrip
    [of example_env "[''svc-a'' \<mapsto> ''host.docker.internal:32000'']" "''svc-a.yaml''"
        example_world]
  by (simp add: example_env_def example_conf_def publish_conf_def publish_job_def
      globalScrapeInterval_def List.map_filter_simps)

lemma getCurrentState_loop_find:
  "\<forall>sc\<in>set scs. StaticConfigs sc \<noteq> [] \<and> Targets (hd (StaticConfigs sc)) \<noteq> [] \<Longrightarrow>
   getCurrentState_loop scs stateMap =
     Ok (\<lambda>j. case List.find (\<lambda>sc. JobName sc = j) (rev scs) of
               None \<Rightarrow> stateMap j
             | Some sc \<Rightarrow> Some (first_target sc))"
proof (induction scs arbitrary: stateMap)
  case Nil
  show ?case by simp
next
  case (Cons sc scs)
  obtain st sts where st: "StaticConfigs sc = st # sts"
    using Cons.prems by (cases "StaticConfigs sc") auto
  obtain t ts where t: "Targets st = t # ts"
    using Cons.prems st by (cases "Targets st") auto
  have "getCurrentState_loop (sc # scs) stateMap
      = getCurrentState_loop scs (stateMap(JobName sc \<mapsto> t))"
    by (simp add: st t)
  also have "\<dots> = Ok (\<lambda>j. case List.find (\<lambda>sc. JobName sc = j) (rev scs) of
               None \<Rightarrow> (stateMap(JobName sc \<mapsto> t)) j
             | Some sc \<Rightarrow> Some (first_target sc))"
    using Cons.prems by (intro Cons.IH) simp
  also have "\<dots> = Ok (\<lambda>j. case List.find (\<lambda>sc. JobName sc = j) (rev (sc # scs)) of
               None \<Rightarrow> stateMap j
             | Some sc \<Rightarrow> Some (first_target sc))"
    by (auto simp: find_snoc first_target_def st t split: option.splits intro!: ext)
  finally show ?case .
qed

text \<open>
  What loading does when every job entry has a first static config with a first target:
  the map holds, under each job name, the first target of the first static config of the
  last entry with that name.
\<close>

lemma getCurrentState_with_first_targets:
  assumes "state_file w = Some f" and "read_fault env = None"
    and "yaml_unmarshal env f = Inr conf"
    and "\<forall>sc\<in>set (ScrapeConfigs conf).
           StaticConfigs sc \<noteq> [] \<and> Targets (hd (StaticConfigs sc)) \<noteq> []"
  shows "fst (getCurrentState env w) =
      Ok (\<lambda>j. map_option first_target
                 (List.find (\<lambda>sc. JobName sc = j) (rev (ScrapeConfigs conf))))
    \<and> (\<forall>sc\<in>set (ScrapeConfigs (publish_conf ks m)).
          \<exists>j t. sc = \<lparr>JobName = j, StaticConfigs = [\<lparr>Targets = [t]\<rparr>]\<rparr>)"
proof -
  have "(\<lambda>j. case List.find (\<lambda>sc. JobName sc = j) (rev (ScrapeConfigs conf)) of
               None \<Rightarrow> Map.empty j
             | Some sc \<Rightarrow> Some (first_target sc))
       = (\<lambda>j. map_option first_target
                 (List.find (\<lambda>sc. JobName sc = j) (rev (ScrapeConfigs conf))))"
    by (auto split: option.splits intro!: ext)
  then have a: "fst (getCurrentState env w) =
      Ok (\<lambda>j. map_option first_target
                 (List.find (\<lambda>sc. JobName sc = j) (rev (ScrapeConfigs conf))))"
    using assms getCurrentState_loop_find[OF assms(4), of Map.empty]
    by (simp add: getCurrentState_def os_ReadFile_def Let_def)
  have b: "\<forall>sc\<in>set (ScrapeConfigs (publish_conf ks m)).
          \<exists>j t. sc = \<lparr>JobName = j, StaticConfigs = [\<lparr>Targets = [t]\<rparr>]\<rparr>"
    by (auto simp: publish_conf_def List.map_filter_def publish_job_def)
  from a b show ?thesis by blast
qed

text \<open>
  C10. The code on three state files that parse. In the first every entry has a target:
  the second target and the second static config of \<open>svc-a\<close> are dropped and its later
  entry counts. In the second the entry \<open>svc-a\<close> has no static config, and in the third
  its static config has no target: loading panics on the index, and no mapping is
  returned, not even the one for \<open>svc-b\<close>.
\<close>

theorem getCurrentState_panics_without_first_target:
  "fst (getCurrentState
         (env\<lparr>read_fault := None, yaml_unmarshal := (\<lambda>f. Inr
            \<lparr>ScrapeInterval = ''15s'',
             ScrapeConfigs =
               [\<lparr>JobName = ''svc-a'',
                 StaticConfigs = [\<lparr>Targets = [''a:1'', ''a:2'']\<rparr>, \<lparr>Targets = [''a:3'']\<rparr>]\<rparr>,
                \<lparr>JobName = ''svc-b'', StaticConfigs = [\<lparr>Targets = [''b:1'']\<rparr>]\<rparr>,
                \<lparr>JobName = ''svc-a'', StaticConfigs = [\<lparr>Targets = [''a:4'', ''a:5'']\<rparr>]\<rparr>]\<rparr>)\<rparr>)
         (w\<lparr>state_file := Some f\<rparr>))
     = Ok [''svc-a'' \<mapsto> ''a:4'', ''svc-b'' \<mapsto> ''b:1'']
   \<and> fst (getCurrentState
         (env\<lparr>read_fault := None, yaml_unmarshal := (\<lambda>f. Inr
            \<lparr>ScrapeInterval = ''60s'',
             ScrapeConfigs =
               [\<lparr>JobName = ''svc-b'', StaticConfigs = [\<lparr>Targets = [''b:1'']\<rparr>]\<rparr>,
                \<lparr>JobName = ''svc-a'', StaticConfigs = []\<rparr>]\<rparr>)\<rparr>)
         (w\<lparr>state_file := Some f\<rparr>))
     = Panic index_out_of_range
   \<and> fst (getCurrentState
         (env\<lparr>read_fault := None, yaml_unmarshal := (\<lambda>f. Inr
            \<lparr>ScrapeInterval = ''60s'',
             ScrapeConfigs =
               [\<lparr>JobName = ''svc-b'', StaticConfigs = [\<lparr>Targets = [''b:1'']\<rparr>]\<rparr>,
                \<lparr>JobName = ''svc-a'', StaticConfigs = [\<lparr>Targets = []\<rparr>]\<rparr>]\<rparr>)\<rparr>)
         (w\<lparr>state_file := Some f\<rparr>))
     = Panic index_out_of_range"
proof -
  have "Map.empty(''svc-a'' \<mapsto> ''a:1'', ''svc-b'' \<mapsto> ''b:1'', ''svc-a'' \<mapsto> ''a:4'')
      = [''svc-a'' \<mapsto> ''a:4'', ''svc-b'' \<mapsto> ''b:1'']"
    by (rule ext) simp
  then show ?thesis
    by (simp add: getCurrentState_def os_ReadFile_def Let_def)
qed

section \<open>Properties of the snapshot producer\<close>

lemma scraper_loop_events:
  "\<forall>c\<in>set cs. opted_in c \<longrightarrow> Names c \<noteq> [] \<Longrightarrow>
   fst (scraper_loop env cs w) = Ok ()
   \<and> map event_key (events (elog (snd (scraper_loop env cs w))))
     = map event_key (events (elog w))
       @ map (\<lambda>c. (runningEvent, ID c, hd (Names c))) (filter opted_in cs)"
proof (induction cs arbitrary: w)
  case Nil
  show ?case by simp
next
  case (Cons c cs)
  have ih: "\<And>w. fst (scraper_loop env cs w) = Ok ()
   \<and> map event_key (events (elog (snd (scraper_loop env cs w))))
     = map event_key (events (elog w))
       @ map (\<lambda>c. (runningEvent, ID c, hd (Names c))) (filter opted_in cs)"
    using Cons.prems by (intro Cons.IH) simp
  show ?case
  proof (cases "opted_in c")
    case True
    then obtain label where l: "Labels c ''scrape_target'' = Some label" "ParseBool label = Inr True"
      by (auto simp: opted_in_def split: option.splits)
    obtain n ns where n: "Names c = n # ns"
      using Cons.prems True by (cases "Names c") auto
    let ?w = "push_now env runningEvent (ID c) n w"
    have step: "scraper_loop env (c # cs) w = scraper_loop env cs ?w"
      by (simp add: l n)
    have ev: "map event_key (events (elog ?w))
        = map event_key (events (elog w)) @ [(runningEvent, ID c, n)]"
      by (simp add: push_now_def push_def event_key_def)
    show ?thesis
      unfolding step using ih[of ?w] True n by (simp add: ev)
  next
    case False
    then have "scraper_loop env (c # cs) w = scraper_loop env cs w
       \<or> (\<exists>err. scraper_loop env (c # cs) w = scraper_loop env cs (logErrorf ErrProducerParseLabel err w))"
      by (auto simp: opted_in_def split: option.splits sum.splits)
    then show ?thesis
    proof
      assume "scraper_loop env (c # cs) w = scraper_loop env cs w"
      then show ?thesis using ih[of w] False by (simp del: scraper_loop.simps)
    next
      assume "\<exists>err. scraper_loop env (c # cs) w = scraper_loop env cs (logErrorf ErrProducerParseLabel err w)"
      then obtain err where
        "scraper_loop env (c # cs) w = scraper_loop env cs (logErrorf ErrProducerParseLabel err w)"
        by blast
      moreover have "elog (logErrorf ErrProducerParseLabel err w) = elog w"
        by (simp add: logErrorf_def emit_def)
      ultimately show ?thesis using ih[of "logErrorf ErrProducerParseLabel err w"] False
        by (simp del: scraper_loop.simps)
    qed
  qed
qed

text \<open>
  What the snapshot producer does when the listing succeeds and every listed container
  that has opted in has at least one name: it adds, in listing order, one Running event
  for each container whose \<open>scrape_target\<close> label is present and parses as true, with the
  container's identifier and its first name, and none for a container whose label is
  absent or does not parse.
\<close>

lemma scraper_events_of_named_targets:
  assumes "container_list env = Inr cs"
    and "\<forall>c\<in>set cs. opted_in c \<longrightarrow> Names c \<noteq> []"
  shows "fst (scraper_produceEventsFor env w) = Ok ()
    \<and> map event_key (events (elog (snd (scraper_produceEventsFor env w))))
      = map event_key (events (elog w))
        @ map (\<lambda>c. (runningEvent, ID c, hd (Names c))) (filter opted_in cs)
    \<and> (\<forall>c. Labels c ''scrape_target'' = None \<longrightarrow> \<not> opted_in c)
    \<and> (\<forall>c label err. Labels c ''scrape_target'' = Some label \<and> ParseBool label = Inl err
          \<longrightarrow> \<not> opted_in c)
    \<and> (\<forall>c label. Labels c ''scrape_target'' = Some label
          \<longrightarrow> opted_in c = (label \<in> {''1'', ''t'', ''T'', ''true'', ''TRUE'', ''True''}))"
proof -
  have a: "fst (scraper_produceEventsFor env w) = Ok ()
    \<and> map event_key (events (elog (snd (scraper_produceEventsFor env w))))
      = map event_key (events (elog w))
        @ map (\<lambda>c. (runningEvent, ID c, hd (Names c))) (filter opted_in cs)"
    using scraper_loop_events[OF assms(2), of env "emit ContainerList w"] assms(1)
    by (simp add: scraper_produceEventsFor_def emit_def Let_def)
  have b: "\<forall>c. Labels c ''scrape_target'' = None \<longrightarrow> \<not> opted_in c"
    by (simp add: opted_in_def)
  have c: "\<forall>c label err. Labels c ''scrape_target'' = Some label \<and> ParseBool label = Inl err
          \<longrightarrow> \<not> opted_in c"
    by (simp add: opted_in_def)
  have d: "\<forall>c label. Labels c ''scrape_target'' = Some label
          \<longrightarrow> opted_in c = (label \<in> {''1'', ''t'', ''T'', ''true'', ''TRUE'', ''True''})"
    by (auto simp: opted_in_def ParseBool_def)
  from a b c d show ?thesis by blast
qed

text \<open>
  C9. The code on two listings. The listing of the example deployment gives one Running
  event, for \<open>w1\<close>, and none for the container without the label or the one whose label
  does not parse. In the listing of \<open>a\<close>, \<open>b\<close> and \<open>c\<close>, all labelled true, the container
  \<open>b\<close> has no name: the producer pushes the event of \<open>a\<close> and panics on the index at
  \<open>b\<close>, so \<open>c\<close> gets no event.
\<close>

theorem scraper_panics_on_target_without_name:
  "scraper_produceEventsFor example_env example_world
     = (Ok (),
        \<lparr>elog = \<lparr>events = [example_start,
                   \<lparr>action = runningEvent, containerID = ''w1'', name = ''/svc-a'',
                    recordedAt = 1\<rparr>]\<rparr>,
         state_file = None,
         trace = [ContainerList,
                  LogError ''producer parsing label: strconv.ParseBool: parsing yes: invalid syntax''],
         ticks = 2\<rparr>)
   \<and> scraper_produceEventsFor
        (example_env\<lparr>container_list :=
           Inr [\<lparr>ID = ''a'', Names = [''/svc-a''], Labels = [''scrape_target'' \<mapsto> ''true'']\<rparr>,
                \<lparr>ID = ''b'', Names = [], Labels = [''scrape_target'' \<mapsto> ''true'']\<rparr>,
                \<lparr>ID = ''c'', Names = [''/svc-c''], Labels = [''scrape_target'' \<mapsto> ''true'']\<rparr>]\<rparr>)
        example_world
     = (Panic index_out_of_range,
        \<lparr>elog = \<lparr>events = [example_start,
                   \<lparr>action = runningEvent, containerID = ''a'', name = ''/svc-a'',
                    recordedAt = 1\<rparr>]\<rparr>,
         state_file = None, trace = [ContainerList], ticks = 2\<rparr>)"
  by (simp add: scraper_produceEventsFor_def example_env_def example_world_def ParseBool_def
      push_now_def push_def logErrorf_def errorf_def emit_def ErrProducerParseLabel_def
      Let_def)

end
